theory Spec2Isabelle
  imports Main
begin

section \<open>Go values seen by the logger\<close>

text \<open>
  A Go \<open>error\<close> value, as far as \<open>errors.Is\<close> and \<open>Error()\<close> can tell values apart:
  the sentinel \<open>gorm.ErrRecordNotFound\<close>, any other \<open>errors.New(s)\<close>, an error that
  wraps another one (\<open>fmt.Errorf("...%w...", e)\<close>, carrying its formatted text), and
  \<open>errors.Join\<close>.
\<close>

datatype goerror =
    ErrRecordNotFound
  | ErrorString string
  | WrapError string goerror
  | JoinError "goerror list"

text \<open>\<open>strings.Join\<close>.\<close>

fun strings_Join :: "string list \<Rightarrow> string \<Rightarrow> string" where
  "strings_Join [] sep = []"
| "strings_Join [x] sep = x"
| "strings_Join (x # y # ys) sep = x @ sep @ strings_Join (y # ys) sep"

text \<open>\<open>err.Error()\<close>.\<close>

fun Error_str :: "goerror \<Rightarrow> string" where
  "Error_str ErrRecordNotFound = ''record not found''"
| "Error_str (ErrorString s) = s"
| "Error_str (WrapError s e) = s"
| "Error_str (JoinError es) = strings_Join (map Error_str es) [CHR 0x0A]"

text \<open>
  \<open>errors.Is(err, target)\<close> for a non-nil \<open>err\<close>: the chain of \<open>err\<close> is walked, through
  \<open>Unwrap() error\<close> and \<open>Unwrap() []error\<close>, until a link equals the target.
\<close>

fun errors_Is :: "goerror \<Rightarrow> goerror \<Rightarrow> bool" where
  "errors_Is ErrRecordNotFound target = (ErrRecordNotFound = target)"
| "errors_Is (ErrorString s) target = (ErrorString s = target)"
| "errors_Is (WrapError s e) target = (WrapError s e = target \<or> errors_Is e target)"
| "errors_Is (JoinError es) target = (JoinError es = target \<or> list_ex (\<lambda>e. errors_Is e target) es)"

text \<open>
  Values of type \<open>any\<close>: \<open>Nil\<close> is the nil interface. A \<open>slog.Attr\<close> is a key with a
  value; the constructors \<open>slog.Any\<close>, \<open>slog.String\<close>, \<open>slog.Duration\<close>, \<open>slog.Int64\<close> and
  \<open>slog.Bool\<close> build one. Durations (\<open>time.Duration\<close>, an \<open>int64\<close> of nanoseconds),
  row counts (\<open>int64\<close>) and levels (\<open>slog.Level\<close>, an \<open>int\<close>) are integers; the logger
  only compares them, so no arithmetic can overflow.
\<close>

datatype any =
    Nil
  | AnyString string
  | AnyInt int
  | AnyBool bool
  | AnyDuration int
  | AnyError goerror
  | AnyAttr Attr
and Attr = Attr (Key: string) (Value: any)

definition slog_Any :: "string \<Rightarrow> any \<Rightarrow> any" where
  "slog_Any k v = AnyAttr (Attr k v)"

definition slog_String :: "string \<Rightarrow> string \<Rightarrow> any" where
  "slog_String k s = AnyAttr (Attr k (AnyString s))"

definition slog_Duration :: "string \<Rightarrow> int \<Rightarrow> any" where
  "slog_Duration k d = AnyAttr (Attr k (AnyDuration d))"

definition slog_Int64 :: "string \<Rightarrow> int \<Rightarrow> any" where
  "slog_Int64 k n = AnyAttr (Attr k (AnyInt n))"

definition slog_Bool :: "string \<Rightarrow> bool \<Rightarrow> any" where
  "slog_Bool k b = AnyAttr (Attr k (AnyBool b))"

text \<open>
  A \<open>context.Context\<close> is a chain of \<open>WithValue\<close> nodes over \<open>context.Background()\<close>;
  \<open>Value\<close> returns the value of the innermost node with an equal key, or nil. The
  logger looks up string keys only (the values of \<open>contextKeys\<close>), which only
  string-keyed nodes can equal, so a context is the list of its string-keyed nodes,
  innermost first. A nil \<open>context.Context\<close> is \<open>None\<close> of \<open>Context option\<close>.
\<close>

type_synonym Context = "(string \<times> any) list"

definition context_Background :: Context where
  "context_Background = []"

definition context_WithValue :: "Context \<Rightarrow> string \<Rightarrow> any \<Rightarrow> Context" where
  "context_WithValue parent k v = (k, v) # parent"

definition Context_Value :: "Context \<Rightarrow> string \<Rightarrow> any" where
  "Context_Value c k = (case map_of c k of None \<Rightarrow> Nil | Some v \<Rightarrow> v)"

section \<open>The sink and the other collaborators\<close>

text \<open>
  \<open>slog.Record\<close>, with the attributes added by \<open>Record.Add\<close>. \<open>Record.Add\<close> turns its
  operands into attributes as \<open>slog\<close> documents it: an \<open>Attr\<close> is taken as it is, a
  string is a key for the operand after it, anything else gets the key \<open>!BADKEY\<close>.
\<close>

record slog_Record =
  Time :: int
  Message :: string
  Level :: int
  PC :: nat
  attrs :: "Attr list"

definition slog_NewRecord :: "int \<Rightarrow> int \<Rightarrow> string \<Rightarrow> nat \<Rightarrow> slog_Record" where
  "slog_NewRecord t level msg pc =
     \<lparr>Time = t, Message = msg, Level = level, PC = pc, attrs = []\<rparr>"

fun argsToAttrs :: "any list \<Rightarrow> Attr list" where
  "argsToAttrs [] = []"
| "argsToAttrs (AnyAttr a # rest) = a # argsToAttrs rest"
| "argsToAttrs [AnyString k] = [Attr ''!BADKEY'' (AnyString k)]"
| "argsToAttrs (AnyString k # v # rest) = Attr k v # argsToAttrs rest"
| "argsToAttrs (x # rest) = Attr ''!BADKEY'' x # argsToAttrs rest"

definition Record_Add :: "slog_Record \<Rightarrow> any list \<Rightarrow> slog_Record" where
  "Record_Add r args = r\<lparr>attrs := attrs r @ argsToAttrs args\<rparr>"

text \<open>
  \<open>slog.Handler\<close>: \<open>Enabled\<close> is a function of the context and the level; a call of
  \<open>Handle\<close> is an event of the run (below), its error result being discarded by the
  logger.
\<close>

record Handler =
  Enabled :: "Context \<Rightarrow> int \<Rightarrow> bool"

text \<open>
  What one run gets from the standard library and from gorm: the clock
  (\<open>time.Since\<close>, \<open>time.Now\<close>), the caller's program counter (\<open>runtime.Callers\<close>),
  \<open>utils.FileWithLineNum()\<close>, \<open>Duration.String()\<close>, the process-wide default handler,
  and the two parts of \<open>fmt.Sprintf\<close> that depend on the operands' dynamic types:
  \<open>fmt_verbs\<close> is \<open>Sprintf\<close> on a format that holds a \<open>%\<close>, \<open>fmt_operand\<close> renders one
  unused operand as \<open>type=value\<close>.
\<close>

record env =
  time_Since :: "int \<Rightarrow> int"
  time_Now :: int
  runtime_Callers :: nat
  utils_FileWithLineNum :: string
  Duration_String :: "int \<Rightarrow> string"
  slog_Default_Handler :: Handler
  fmt_verbs :: "string \<Rightarrow> any list \<Rightarrow> string"
  fmt_operand :: "any \<Rightarrow> string"

text \<open>
  \<open>fmt.Sprintf(format, args...)\<close>. A format without \<open>%\<close> is copied to the output and
  consumes no operand; \<open>Sprintf\<close> then reports every operand as
  \<open>%!(EXTRA type=value, ...)\<close>.
\<close>

definition fmt_extra :: "env \<Rightarrow> any list \<Rightarrow> string" where
  "fmt_extra e args =
     (if args = [] then []
      else ''%!(EXTRA '' @ strings_Join (map (fmt_operand e) args) '', '' @ '')'')"

definition fmt_Sprintf :: "env \<Rightarrow> string \<Rightarrow> any list \<Rightarrow> string" where
  "fmt_Sprintf e format args =
     (if CHR ''%'' \<in> set format then fmt_verbs e format args
      else format @ fmt_extra e args)"

section \<open>The logger\<close>

type_synonym LogType = string

definition ErrorLogType :: LogType where "ErrorLogType = ''sql_error''"
definition SlowQueryLogType :: LogType where "SlowQueryLogType = ''slow_query''"
definition DefaultLogType :: LogType where "DefaultLogType = ''default''"

definition SourceField :: string where "SourceField = ''file''"
definition ErrorField :: string where "ErrorField = ''error''"
definition QueryField :: string where "QueryField = ''query''"
definition DurationField :: string where "DurationField = ''duration''"
definition SlowQueryField :: string where "SlowQueryField = ''slow_query''"
definition RowsField :: string where "RowsField = ''rows''"

definition slog_LevelInfo :: int where "slog_LevelInfo = 0"
definition slog_LevelWarn :: int where "slog_LevelWarn = 4"
definition slog_LevelError :: int where "slog_LevelError = 8"

text \<open>
  The struct \<open>logger\<close>. \<open>sloggerHandler\<close> is an interface value, nil (\<open>None\<close>) until an
  option or the end of \<open>New\<close> sets it. \<open>contextKeys\<close> is a Go map from attribute name
  to lookup key: the list of its entries in the order \<open>range\<close> yields them, so its
  first components are distinct.
\<close>

record logger =
  sloggerHandler :: "Handler option"
  ignoreTrace :: bool
  ignoreRecordNotFoundError :: bool
  traceAll :: bool
  slowThreshold :: int
  logLevel :: "LogType \<rightharpoonup> int"
  contextKeys :: "(string \<times> string) list"
  sourceField :: string
  errorField :: string

text \<open>\<open>l.logLevel[t]\<close>: a missing key reads as the zero value.\<close>

definition logLevel_at :: "logger \<Rightarrow> LogType \<Rightarrow> int" where
  "logLevel_at l t = (case logLevel l t of None \<Rightarrow> 0 | Some v \<Rightarrow> v)"

text \<open>
  \<open>New(options...)\<close>. An option is a function that updates the logger; the options
  themselves are the caller's.
\<close>

definition New :: "env \<Rightarrow> (logger \<Rightarrow> logger) list \<Rightarrow> logger" where
  "New e options =
     (let l = \<lparr>sloggerHandler = None,
               ignoreTrace = False,
               ignoreRecordNotFoundError = True,
               traceAll = False,
               slowThreshold = 0,
               logLevel = [ErrorLogType \<mapsto> slog_LevelError,
                           SlowQueryLogType \<mapsto> slog_LevelWarn,
                           DefaultLogType \<mapsto> slog_LevelInfo],
               contextKeys = [],
               sourceField = SourceField,
               errorField = ErrorField\<rparr>;
          l = fold (\<lambda>option l. option l) options l
      in if sloggerHandler l = None
         then l\<lparr>sloggerHandler := Some (slog_Default_Handler e)\<rparr>
         else l)"

text \<open>
  What a call does to the outside, in order: it invokes the lazy provider \<open>fc\<close>, asks
  the handler whether a level is enabled, hands a record to the handler. A call
  returns or panics.
\<close>

datatype event =
    FcCall
  | EnabledCall Context int
  | HandleCall Context slog_Record

datatype panic = NilPointerDereference

datatype outcome = Returned | Panicked panic

type_synonym run = "event list \<times> outcome"

definition after :: "event list \<Rightarrow> run \<Rightarrow> run" where
  "after es r = (es @ fst r, snd r)"

text \<open>
  \<open>appendContextAttributes\<close>. A nil \<open>args\<close> and an empty one are both \<open>[]\<close>. The loop
  calls \<open>ctx.Value\<close> once for each entry of \<open>contextKeys\<close>; on a nil \<open>ctx\<close> that call is
  a nil pointer dereference.
\<close>

fun appendContextAttributes_range ::
  "Context option \<Rightarrow> (string \<times> string) list \<Rightarrow> any list \<Rightarrow> panic + any list" where
  "appendContextAttributes_range ctx [] args = Inr args"
| "appendContextAttributes_range ctx ((k, v) # kvs) args =
     (case ctx of
        None \<Rightarrow> Inl NilPointerDereference
      | Some c \<Rightarrow>
          (let value = Context_Value c v
           in if value \<noteq> Nil
              then appendContextAttributes_range ctx kvs (args @ [slog_Any k value])
              else appendContextAttributes_range ctx kvs args))"

definition appendContextAttributes ::
  "logger \<Rightarrow> Context option \<Rightarrow> any list \<Rightarrow> panic + any list" where
  "appendContextAttributes l ctx args = appendContextAttributes_range ctx (contextKeys l) args"

text \<open>\<open>log\<close>: adds context attributes and logs a message with the given level.\<close>

definition log :: "env \<Rightarrow> logger \<Rightarrow> Context option \<Rightarrow> int \<Rightarrow> string \<Rightarrow> any list \<Rightarrow> run" where
  "log e l ctx level format args =
     (let ctx = (case ctx of None \<Rightarrow> context_Background | Some c \<Rightarrow> c)
      in case sloggerHandler l of
           None \<Rightarrow> ([], Panicked NilPointerDereference)
         | Some h \<Rightarrow>
             if \<not> Enabled h ctx level then ([EnabledCall ctx level], Returned)
             else
               (let r = slog_NewRecord (time_Now e) level (fmt_Sprintf e format args)
                          (runtime_Callers e)
                in case appendContextAttributes l (Some ctx) [] of
                     Inl p \<Rightarrow> ([EnabledCall ctx level], Panicked p)
                   | Inr as \<Rightarrow>
                       ([EnabledCall ctx level, HandleCall ctx (Record_Add r as)], Returned)))"

definition Info :: "env \<Rightarrow> logger \<Rightarrow> Context option \<Rightarrow> string \<Rightarrow> any list \<Rightarrow> run" where
  "Info e l ctx format args = log e l ctx slog_LevelInfo format args"

definition Warn :: "env \<Rightarrow> logger \<Rightarrow> Context option \<Rightarrow> string \<Rightarrow> any list \<Rightarrow> run" where
  "Warn e l ctx format args = log e l ctx slog_LevelWarn format args"

definition Error :: "env \<Rightarrow> logger \<Rightarrow> Context option \<Rightarrow> string \<Rightarrow> any list \<Rightarrow> run" where
  "Error e l ctx format args = log e l ctx slog_LevelError format args"

text \<open>
  \<open>Trace\<close>. \<open>fc\<close> is what the lazy provider returns when it is invoked; \<open>err\<close> is
  \<open>None\<close> for a nil error. The three bodies are the three cases of the \<open>switch\<close>, in
  its order.
\<close>

definition Trace_error :: "env \<Rightarrow> logger \<Rightarrow> Context option \<Rightarrow> int \<Rightarrow> string \<times> int \<Rightarrow> goerror \<Rightarrow> run" where
  "Trace_error e l ctx elapsed fc err =
     (let (sql, rows) = fc
      in case appendContextAttributes l ctx
                [slog_Any (errorField l) (AnyError err),
                 slog_String QueryField sql,
                 slog_Duration DurationField elapsed,
                 slog_Int64 RowsField rows,
                 slog_String (sourceField l) (utils_FileWithLineNum e)] of
           Inl p \<Rightarrow> ([FcCall], Panicked p)
         | Inr attributes \<Rightarrow>
             after [FcCall]
               (log e l ctx (logLevel_at l ErrorLogType) (Error_str err) attributes))"

definition Trace_slow :: "env \<Rightarrow> logger \<Rightarrow> Context option \<Rightarrow> int \<Rightarrow> string \<times> int \<Rightarrow> run" where
  "Trace_slow e l ctx elapsed fc =
     (let (sql, rows) = fc
      in case appendContextAttributes l ctx
                [slog_Bool SlowQueryField True,
                 slog_String QueryField sql,
                 slog_Duration DurationField elapsed,
                 slog_Int64 RowsField rows,
                 slog_String (sourceField l) (utils_FileWithLineNum e)] of
           Inl p \<Rightarrow> ([FcCall], Panicked p)
         | Inr attributes \<Rightarrow>
             after [FcCall]
               (log e l ctx (logLevel_at l SlowQueryLogType)
                  (''slow sql query ['' @ Duration_String e elapsed @ '' >= ''
                     @ Duration_String e (slowThreshold l) @ '']'')
                  attributes))"

definition Trace_default :: "env \<Rightarrow> logger \<Rightarrow> Context option \<Rightarrow> int \<Rightarrow> string \<times> int \<Rightarrow> run" where
  "Trace_default e l ctx elapsed fc =
     (let (sql, rows) = fc
      in case appendContextAttributes l ctx
                [slog_String QueryField sql,
                 slog_Duration DurationField elapsed,
                 slog_Int64 RowsField rows,
                 slog_String (sourceField l) (utils_FileWithLineNum e)] of
           Inl p \<Rightarrow> ([FcCall], Panicked p)
         | Inr attributes \<Rightarrow>
             after [FcCall]
               (log e l ctx (logLevel_at l DefaultLogType)
                  (''SQL query executed ['' @ Duration_String e elapsed @ '']'')
                  attributes))"

definition Trace ::
  "env \<Rightarrow> logger \<Rightarrow> Context option \<Rightarrow> int \<Rightarrow> string \<times> int \<Rightarrow> goerror option \<Rightarrow> run" where
  "Trace e l ctx begin fc err =
     (if ignoreTrace l then ([], Returned)
      else
        (let elapsed = time_Since e begin
         in if err \<noteq> None \<and>
               (\<not> errors_Is (the err) ErrRecordNotFound \<or> \<not> ignoreRecordNotFoundError l)
            then Trace_error e l ctx elapsed fc (the err)
            else if slowThreshold l \<noteq> 0 \<and> elapsed > slowThreshold l
            then Trace_slow e l ctx elapsed fc
            else if traceAll l
            then Trace_default e l ctx elapsed fc
            else ([], Returned)))"

text \<open>Reading a run: how often the provider was invoked, and the records handed over.\<close>

fun fc_calls :: "event list \<Rightarrow> nat" where
  "fc_calls [] = 0"
| "fc_calls (FcCall # es) = Suc (fc_calls es)"
| "fc_calls (_ # es) = fc_calls es"

fun handled :: "event list \<Rightarrow> slog_Record list" where
  "handled [] = []"
| "handled (HandleCall c r # es) = r # handled es"
| "handled (_ # es) = handled es"

section \<open>Vocabulary of the statements\<close>

text \<open>
  The attributes that the registered direct-key extractors yield on a context: for
  each entry of \<open>contextKeys\<close> whose lookup key has a non-nil value in the context, the
  attribute of the entry's name with that value.
\<close>

definition context_attributes :: "logger \<Rightarrow> Context \<Rightarrow> Attr list" where
  "context_attributes l c =
     map (\<lambda>(k, v). Attr k (Context_Value c v))
       (filter (\<lambda>(k, v). Context_Value c v \<noteq> Nil) (contextKeys l))"

text \<open>
  The case conditions of the \<open>switch\<close> in \<open>Trace\<close>: an error that is not filtered, and
  a configured threshold that the elapsed time exceeds. \<open>or_Background\<close> is the
  context \<open>log\<close> works with.
\<close>

definition error_matches :: "logger \<Rightarrow> goerror option \<Rightarrow> bool" where
  "error_matches l err =
     (case err of
        None \<Rightarrow> False
      | Some er \<Rightarrow> \<not> errors_Is er ErrRecordNotFound \<or> \<not> ignoreRecordNotFoundError l)"

definition slow_matches :: "env \<Rightarrow> logger \<Rightarrow> int \<Rightarrow> bool" where
  "slow_matches e l begin = (slowThreshold l \<noteq> 0 \<and> slowThreshold l < time_Since e begin)"

definition or_Background :: "Context option \<Rightarrow> Context" where
  "or_Background ctx = (case ctx of None \<Rightarrow> context_Background | Some c \<Rightarrow> c)"

text \<open>
  Inputs of the repository's tests: the handler of \<open>logger_test.go\<close> that enables every
  level, a handler with a minimum level (\<open>slog.NewTextHandler\<close> with
  \<open>HandlerOptions{Level: m}\<close>), and the collaborators of a run that ends one minute
  after time 0. In that run \<open>Duration.String()\<close> is given on the durations used
  below, and the renderings of \<open>fmt\<close> are placeholders: no statement reads them.
\<close>

definition DummyHandler :: Handler where
  "DummyHandler = \<lparr>Enabled = (\<lambda>_ _. True)\<rparr>"

definition LevelHandler :: "int \<Rightarrow> Handler" where
  "LevelHandler m = \<lparr>Enabled = (\<lambda>_ level. m \<le> level)\<rparr>"

definition test_Duration_String :: "int \<Rightarrow> string" where
  "test_Duration_String d =
     (if d = 60000000000 then ''1m0s''
      else if d = 2000000000 then ''2s''
      else if d = 1000000000 then ''1s''
      else ''0s'')"

definition test_env :: env where
  "test_env =
     \<lparr>time_Since = (\<lambda>begin. 60000000000 - begin),
      time_Now = 60000000000,
      runtime_Callers = 0,
      utils_FileWithLineNum = ''main.go:42'',
      Duration_String = test_Duration_String,
      slog_Default_Handler = DummyHandler,
      fmt_verbs = (\<lambda>format args. format),
      fmt_operand = (\<lambda>_. ''_'')\<rparr>"

definition test_logger :: logger where
  "test_logger = New test_env [\<lambda>l. l\<lparr>sloggerHandler := Some DummyHandler\<rparr>]"

section \<open>What the functions do, step by step\<close>

lemma appendContextAttributes_range_Some:
  "appendContextAttributes_range (Some c) kvs args =
     Inr (args @ map (\<lambda>(k, v). slog_Any k (Context_Value c v))
                   (filter (\<lambda>(k, v). Context_Value c v \<noteq> Nil) kvs))"
  by (induction kvs arbitrary: args) (auto simp: Let_def)

lemma appendContextAttributes_Some:
  "appendContextAttributes l (Some c) args = Inr (args @ map AnyAttr (context_attributes l c))"
  by (simp add: appendContextAttributes_def appendContextAttributes_range_Some
      context_attributes_def slog_Any_def split_def comp_def)

lemma appendContextAttributes_None:
  "appendContextAttributes l None args =
     (if contextKeys l = [] then Inr args else Inl NilPointerDereference)"
  by (cases "contextKeys l") (auto simp: appendContextAttributes_def)

lemma argsToAttrs_Attrs: "argsToAttrs (map AnyAttr as) = as"
  by (induction as) simp_all

lemma context_attributes_Background: "context_attributes l context_Background = []"
  by (induction "contextKeys l")
     (auto simp: context_attributes_def context_Background_def Context_Value_def)

lemma log_handler:
  assumes "sloggerHandler l = Some h"
  shows "log e l (Some c) level format args =
     (if Enabled h c level
      then ([EnabledCall c level,
             HandleCall c \<lparr>Time = time_Now e, Message = fmt_Sprintf e format args,
                           Level = level, PC = runtime_Callers e,
                           attrs = context_attributes l c\<rparr>], Returned)
      else ([EnabledCall c level], Returned))"
  using assms
  by (simp add: log_def appendContextAttributes_Some argsToAttrs_Attrs Record_Add_def
      slog_NewRecord_def)

lemma log_nil_context: "log e l None level format args = log e l (Some context_Background) level format args"
  by (simp add: log_def)


lemma log_run:
  assumes "sloggerHandler l = Some h"
  shows "log e l ctx level format args =
     ([EnabledCall (or_Background ctx) level] @
      (if Enabled h (or_Background ctx) level
       then [HandleCall (or_Background ctx)
               \<lparr>Time = time_Now e, Message = fmt_Sprintf e format args,
                Level = level, PC = runtime_Callers e,
                attrs = context_attributes l (or_Background ctx)\<rparr>]
       else []), Returned)"
proof (cases ctx)
  case None
  then show ?thesis
    using log_handler [OF assms, of e context_Background level format args]
    by (simp add: log_nil_context or_Background_def)
next
  case (Some c)
  then show ?thesis
    using log_handler [OF assms, of e c level format args]
    by (simp add: or_Background_def)
qed

lemma fc_calls_log: "fc_calls (fst (log e l ctx level format args)) = 0"
  by (simp add: log_def Let_def split: option.splits sum.splits)

lemma handled_log_le: "length (handled (fst (log e l ctx level format args))) \<le> Suc 0"
  by (simp add: log_def Let_def split: option.splits sum.splits)

lemma Trace_cases:
  "Trace e l ctx begin fc err =
     (if ignoreTrace l then ([], Returned)
      else if error_matches l err then Trace_error e l ctx (time_Since e begin) fc (the err)
      else if slow_matches e l begin then Trace_slow e l ctx (time_Since e begin) fc
      else if traceAll l then Trace_default e l ctx (time_Since e begin) fc
      else ([], Returned))"
  by (cases err) (simp_all add: Trace_def error_matches_def slow_matches_def Let_def)

lemma Trace_error_run:
  assumes "sloggerHandler l = Some h"
  shows "Trace_error e l (Some c) elapsed (sql, rows) er =
     ([FcCall, EnabledCall c (logLevel_at l ErrorLogType)] @
      (if Enabled h c (logLevel_at l ErrorLogType)
       then [HandleCall c
               \<lparr>Time = time_Now e,
                Message = fmt_Sprintf e (Error_str er)
                  (map AnyAttr
                     ([Attr (errorField l) (AnyError er),
                       Attr QueryField (AnyString sql),
                       Attr DurationField (AnyDuration elapsed),
                       Attr RowsField (AnyInt rows),
                       Attr (sourceField l) (AnyString (utils_FileWithLineNum e))]
                      @ context_attributes l c)),
                Level = logLevel_at l ErrorLogType, PC = runtime_Callers e,
                attrs = context_attributes l c\<rparr>]
       else []), Returned)"
  by (simp add: Trace_error_def appendContextAttributes_Some log_run [OF assms] after_def
      or_Background_def slog_Any_def slog_String_def slog_Duration_def slog_Int64_def)

lemma Trace_slow_run:
  assumes "sloggerHandler l = Some h"
  shows "Trace_slow e l (Some c) elapsed (sql, rows) =
     ([FcCall, EnabledCall c (logLevel_at l SlowQueryLogType)] @
      (if Enabled h c (logLevel_at l SlowQueryLogType)
       then [HandleCall c
               \<lparr>Time = time_Now e,
                Message = fmt_Sprintf e
                  (''slow sql query ['' @ Duration_String e elapsed @ '' >= ''
                     @ Duration_String e (slowThreshold l) @ '']'')
                  (map AnyAttr
                     ([Attr SlowQueryField (AnyBool True),
                       Attr QueryField (AnyString sql),
                       Attr DurationField (AnyDuration elapsed),
                       Attr RowsField (AnyInt rows),
                       Attr (sourceField l) (AnyString (utils_FileWithLineNum e))]
                      @ context_attributes l c)),
                Level = logLevel_at l SlowQueryLogType, PC = runtime_Callers e,
                attrs = context_attributes l c\<rparr>]
       else []), Returned)"
  by (simp add: Trace_slow_def appendContextAttributes_Some log_run [OF assms] after_def
      or_Background_def slog_Bool_def slog_String_def slog_Duration_def slog_Int64_def)

lemma Trace_default_run:
  assumes "sloggerHandler l = Some h"
  shows "Trace_default e l (Some c) elapsed (sql, rows) =
     ([FcCall, EnabledCall c (logLevel_at l DefaultLogType)] @
      (if Enabled h c (logLevel_at l DefaultLogType)
       then [HandleCall c
               \<lparr>Time = time_Now e,
                Message = fmt_Sprintf e
                  (''SQL query executed ['' @ Duration_String e elapsed @ '']'')
                  (map AnyAttr
                     ([Attr QueryField (AnyString sql),
                       Attr DurationField (AnyDuration elapsed),
                       Attr RowsField (AnyInt rows),
                       Attr (sourceField l) (AnyString (utils_FileWithLineNum e))]
                      @ context_attributes l c)),
                Level = logLevel_at l DefaultLogType, PC = runtime_Callers e,
                attrs = context_attributes l c\<rparr>]
       else []), Returned)"
  by (simp add: Trace_default_def appendContextAttributes_Some log_run [OF assms] after_def
      or_Background_def slog_String_def slog_Duration_def slog_Int64_def)

lemma fc_calls_branches:
  "fc_calls (fst (Trace_error e l ctx elapsed fc er)) = 1"
  "fc_calls (fst (Trace_slow e l ctx elapsed fc)) = 1"
  "fc_calls (fst (Trace_default e l ctx elapsed fc)) = 1"
  by (simp_all add: Trace_error_def Trace_slow_def Trace_default_def after_def fc_calls_log
      split: prod.splits sum.splits)

lemma handled_branches_le:
  "length (handled (fst (Trace_error e l ctx elapsed fc er))) \<le> 1"
  "length (handled (fst (Trace_slow e l ctx elapsed fc))) \<le> 1"
  "length (handled (fst (Trace_default e l ctx elapsed fc))) \<le> 1"
  by (simp_all add: Trace_error_def Trace_slow_def Trace_default_def after_def handled_log_le
      split: prod.splits sum.splits)


lemma test_logger_eq:
  "test_logger =
     \<lparr>sloggerHandler = Some DummyHandler, ignoreTrace = False,
      ignoreRecordNotFoundError = True, traceAll = False, slowThreshold = 0,
      logLevel = [''sql_error'' \<mapsto> 8, ''slow_query'' \<mapsto> 4, ''default'' \<mapsto> 0],
      contextKeys = [], sourceField = ''file'', errorField = ''error''\<rparr>"
  by (simp add: test_logger_def New_def ErrorLogType_def SlowQueryLogType_def
      DefaultLogType_def slog_LevelError_def slog_LevelWarn_def slog_LevelInfo_def
      SourceField_def ErrorField_def)

lemmas test_simps =
  test_logger_eq test_env_def DummyHandler_def LevelHandler_def test_Duration_String_def
  logLevel_at_def ErrorLogType_def SlowQueryLogType_def DefaultLogType_def
  QueryField_def DurationField_def RowsField_def SlowQueryField_def
  context_Background_def context_attributes_def Context_Value_def
  error_matches_def slow_matches_def or_Background_def

section \<open>Global suppression\<close>

text \<open>
  C8. With global trace suppression enabled (\<open>ignoreTrace\<close>), \<open>Trace\<close> returns at once,
  for every context (nil or not), error, start time, provider and every other setting
  of the logger: its run has no event at all, so the provider is never invoked and no
  record is handed to the sink.
\<close>

theorem Trace_ignoreTrace_silent:
  "ignoreTrace l \<Longrightarrow>
     Trace e l ctx begin fc err = ([], Returned)
     \<and> fc_calls (fst (Trace e l ctx begin fc err)) = 0
     \<and> handled (fst (Trace e l ctx begin fc err)) = []"
  by (simp add: Trace_def)


theorem Trace_ignoreTrace_silent_witness:
  "ignoreTrace (test_logger\<lparr>ignoreTrace := True, traceAll := True\<rparr>) \<and>
   Trace test_env (test_logger\<lparr>ignoreTrace := True, traceAll := True\<rparr>)
     (Some context_Background) 0 (''SELECT * FROM user'', 1)
     (Some (ErrorString ''awesome error'')) = ([], Returned)"
  using Trace_ignoreTrace_silent
    [of "test_logger\<lparr>ignoreTrace := True, traceAll := True\<rparr>" test_env
        "Some context_Background" 0 "(''SELECT * FROM user'', 1)"
        "Some (ErrorString ''awesome error'')"]
  by simp

section \<open>The error branch\<close>

text \<open>
  C1. What the sink receives from the error branch. When the error is not filtered,
  suppression is off and the sink enables the Error-category level, \<open>Trace\<close> hands
  over exactly one record, at the configured Error-category level. The attributes of
  that record are the context-derived attributes only: the error, the query text, the
  duration, the row count and the call-site are not among them. They are the operands
  of \<open>fmt.Sprintf\<close> in \<open>log\<close>, with the error's text as the format, so the message is
  that \<open>Sprintf\<close> result and not the error's text. At the input of the repository's
  test "Error" (the witness) the message is the error's text followed by
  \<open>%!(EXTRA ...)\<close> and the record has no attribute.
\<close>

theorem Trace_error_record:
  assumes "sloggerHandler l = Some h"
    and "\<not> ignoreTrace l"
    and "\<not> errors_Is er ErrRecordNotFound \<or> \<not> ignoreRecordNotFoundError l"
    and "Enabled h c (logLevel_at l ErrorLogType)"
  shows "handled (fst (Trace e l (Some c) begin (sql, rows) (Some er))) =
     [\<lparr>Time = time_Now e,
       Message = fmt_Sprintf e (Error_str er)
         (map AnyAttr
            ([Attr (errorField l) (AnyError er),
              Attr QueryField (AnyString sql),
              Attr DurationField (AnyDuration (time_Since e begin)),
              Attr RowsField (AnyInt rows),
              Attr (sourceField l) (AnyString (utils_FileWithLineNum e))]
             @ context_attributes l c)),
       Level = logLevel_at l ErrorLogType,
       PC = runtime_Callers e,
       attrs = context_attributes l c\<rparr>]"
  using assms(2-4)
  by (simp add: Trace_cases error_matches_def Trace_error_run [OF assms(1)])

theorem Trace_error_record_witness:
  "handled (fst (Trace test_env test_logger (Some context_Background) 0
     (''SELECT * FROM user'', 1) (Some (ErrorString ''awesome error'')))) =
     [\<lparr>Time = 60000000000,
       Message = ''awesome error%!(EXTRA '' @
         strings_Join (map (fmt_operand test_env)
           [AnyAttr (Attr ''error'' (AnyError (ErrorString ''awesome error''))),
            AnyAttr (Attr ''query'' (AnyString ''SELECT * FROM user'')),
            AnyAttr (Attr ''duration'' (AnyDuration 60000000000)),
            AnyAttr (Attr ''rows'' (AnyInt 1)),
            AnyAttr (Attr ''file'' (AnyString ''main.go:42''))]) '', '' @ '')'',
       Level = 8, PC = 0, attrs = []\<rparr>]"
  using Trace_error_record
    [of test_logger DummyHandler "ErrorString ''awesome error''" context_Background
        test_env 0 "''SELECT * FROM user''" 1]
  by (simp add: test_simps fmt_Sprintf_def fmt_extra_def)


end
